theory Spec2Isabelle
  imports Complex_Main "HOL-Library.Sublist"
begin

section \<open>Values and exceptions of the helper server\<close>

text \<open>
  The helper server (\<^verbatim>\<open>helper/rpcserver.py\<close>) receives JSON values from its callers and
  from the game state processor (GSP). A \<open>pyval\<close> is such a decoded value, with the dynamic
  type Python gives it. A \<open>PDict\<close> lists the items of a dict in insertion order. A
  \<open>string\<close> stands for a Python \<open>str\<close>, one \<open>char\<close> per code point. JSON numbers
  with a fractional part (Python floats) are not part of the model.
\<close>

datatype pyval =
    PNone
  | PBool bool
  | PInt int
  | PStr string
  | PList "pyval list"
  | PDict "(string \<times> pyval) list"

text \<open>An exception instance: \<open>etype\<close> is \<^verbatim>\<open>type(e).__name__\<close>, \<open>emsg\<close> is \<^verbatim>\<open>str(e)\<close>.
  Only instances of \<^verbatim>\<open>Exception\<close> are modelled.\<close>

datatype exn = Exn (etype: string) (emsg: string)

fun type_name :: "pyval \<Rightarrow> string" where
  "type_name PNone = ''NoneType''"
| "type_name (PBool b) = ''bool''"
| "type_name (PInt i) = ''int''"
| "type_name (PStr s) = ''str''"
| "type_name (PList xs) = ''list''"
| "type_name (PDict kvs) = ''dict''"

definition sq :: "string \<Rightarrow> string" where
  "sq s = CHR 0x27 # s @ [CHR 0x27]"

subsection \<open>Rendering values as text\<close>

fun digits :: "nat \<Rightarrow> string" where
  "digits n = (if n < 10 then [char_of (48 + n)]
               else digits (n div 10) @ [char_of (48 + n mod 10)])"

declare digits.simps [simp del]

definition str_int :: "int \<Rightarrow> string" where
  "str_int i = (if i < 0 then CHR ''-'' # digits (nat (- i)) else digits (nat i))"

definition hex_digit :: "nat \<Rightarrow> char" where
  "hex_digit n = (if n < 10 then char_of (48 + n) else char_of (87 + n))"

definition hex_escape :: "char \<Rightarrow> string" where
  "hex_escape c =
     [CHR 0x5C, CHR ''x'', hex_digit ((of_char c :: nat) div 16), hex_digit ((of_char c :: nat) mod 16)]"

definition printable :: "char \<Rightarrow> bool" where
  "printable c = (let n = (of_char c :: nat) in (32 \<le> n \<and> n < 127) \<or> (161 \<le> n \<and> n \<noteq> 173))"

definition repr_char :: "char \<Rightarrow> char \<Rightarrow> string" where
  "repr_char q c =
     (if c = q \<or> c = CHR 0x5C then [CHR 0x5C, c]
      else if c = CHR 0x09 then [CHR 0x5C, CHR ''t'']
      else if c = CHR 0x0A then [CHR 0x5C, CHR ''n'']
      else if c = CHR 0x0D then [CHR 0x5C, CHR ''r'']
      else if printable c then [c]
      else hex_escape c)"

text \<open>\<^verbatim>\<open>repr\<close> of a \<open>str\<close>: single quotes, unless the text has a single quote and no
  double quote.\<close>

definition repr_str :: "string \<Rightarrow> string" where
  "repr_str s =
     (let q = (if CHR 0x27 \<in> set s \<and> CHR 0x22 \<notin> set s then CHR 0x22 else CHR 0x27)
      in q # concat (map (repr_char q) s) @ [q])"

fun py_repr :: "pyval \<Rightarrow> string"
  and repr_items :: "pyval list \<Rightarrow> string"
  and repr_pairs :: "(string \<times> pyval) list \<Rightarrow> string" where
  "py_repr PNone = ''None''"
| "py_repr (PBool b) = (if b then ''True'' else ''False'')"
| "py_repr (PInt i) = str_int i"
| "py_repr (PStr s) = repr_str s"
| "py_repr (PList xs) = ''['' @ repr_items xs @ '']''"
| "py_repr (PDict kvs) = ''{'' @ repr_pairs kvs @ ''}''"
| "repr_items [] = []"
| "repr_items [x] = py_repr x"
| "repr_items (x # y # ys) = py_repr x @ '', '' @ repr_items (y # ys)"
| "repr_pairs [] = []"
| "repr_pairs [(k, v)] = repr_str k @ '': '' @ py_repr v"
| "repr_pairs ((k, v) # kv # kvs) = repr_str k @ '': '' @ py_repr v @ '', '' @ repr_pairs (kv # kvs)"

text \<open>\<^verbatim>\<open>str(v)\<close>, which is what the \<^verbatim>\<open>%s\<close> conversion prints.\<close>

definition py_str :: "pyval \<Rightarrow> string" where
  "py_str v = (case v of PStr s \<Rightarrow> s | _ \<Rightarrow> py_repr v)"

text \<open>The \<^verbatim>\<open>%d\<close> conversion: an \<open>int\<close> or a \<open>bool\<close> prints in decimal, anything else
  raises \<^verbatim>\<open>TypeError\<close>.\<close>

definition py_fmt_d :: "pyval \<Rightarrow> exn + string" where
  "py_fmt_d v =
     (case v of
        PInt i \<Rightarrow> Inr (str_int i)
      | PBool b \<Rightarrow> Inr (if b then ''1'' else ''0'')
      | _ \<Rightarrow> Inl (Exn ''TypeError'' (''%d format: a real number is required, not '' @ type_name v)))"

text \<open>\<^verbatim>\<open>json.dumps (v, separators=(",", ":"))\<close>: no blanks, keys in the dict's order, and
  in a string every character outside the printable ASCII range escaped.\<close>

definition hex4 :: "nat \<Rightarrow> string" where
  "hex4 n = [hex_digit (n div 4096 mod 16), hex_digit (n div 256 mod 16),
             hex_digit (n div 16 mod 16), hex_digit (n mod 16)]"

definition json_char :: "char \<Rightarrow> string" where
  "json_char c =
     (if c = CHR 0x22 \<or> c = CHR 0x5C then [CHR 0x5C, c]
      else if c = CHR 0x08 then [CHR 0x5C, CHR ''b'']
      else if c = CHR 0x0C then [CHR 0x5C, CHR ''f'']
      else if c = CHR 0x0A then [CHR 0x5C, CHR ''n'']
      else if c = CHR 0x0D then [CHR 0x5C, CHR ''r'']
      else if c = CHR 0x09 then [CHR 0x5C, CHR ''t'']
      else if 32 \<le> (of_char c :: nat) \<and> (of_char c :: nat) < 127 then [c]
      else [CHR 0x5C, CHR ''u''] @ hex4 (of_char c))"

definition json_str :: "string \<Rightarrow> string" where
  "json_str s = CHR 0x22 # concat (map json_char s) @ [CHR 0x22]"

fun compact_json :: "pyval \<Rightarrow> string"
  and json_items :: "pyval list \<Rightarrow> string"
  and json_pairs :: "(string \<times> pyval) list \<Rightarrow> string" where
  "compact_json PNone = ''null''"
| "compact_json (PBool b) = (if b then ''true'' else ''false'')"
| "compact_json (PInt i) = str_int i"
| "compact_json (PStr s) = json_str s"
| "compact_json (PList xs) = ''['' @ json_items xs @ '']''"
| "compact_json (PDict kvs) = ''{'' @ json_pairs kvs @ ''}''"
| "json_items [] = []"
| "json_items [x] = compact_json x"
| "json_items (x # y # ys) = compact_json x @ '','' @ json_items (y # ys)"
| "json_pairs [] = []"
| "json_pairs [(k, v)] = json_str k @ '':'' @ compact_json v"
| "json_pairs ((k, v) # kv # kvs) = json_str k @ '':'' @ compact_json v @ '','' @ json_pairs (kv # kvs)"

subsection \<open>Operations on values\<close>

text \<open>Truth value of an object in a condition.\<close>

fun py_truthy :: "pyval \<Rightarrow> bool" where
  "py_truthy PNone = False"
| "py_truthy (PBool b) = b"
| "py_truthy (PInt i) = (i \<noteq> 0)"
| "py_truthy (PStr s) = (s \<noteq> [])"
| "py_truthy (PList xs) = (xs \<noteq> [])"
| "py_truthy (PDict kvs) = (kvs \<noteq> [])"

text \<open>\<^verbatim>\<open>v.get(k, dflt)\<close>: only a dict has the method.\<close>

definition py_get :: "pyval \<Rightarrow> string \<Rightarrow> pyval \<Rightarrow> exn + pyval" where
  "py_get v k dflt =
     (case v of
        PDict kvs \<Rightarrow> Inr (case map_of kvs k of Some x \<Rightarrow> x | None \<Rightarrow> dflt)
      | _ \<Rightarrow> Inl (Exn ''AttributeError''
                 (sq (type_name v) @ '' object has no attribute '' @ sq ''get'')))"

text \<open>\<^verbatim>\<open>v[k]\<close> with a \<open>str\<close> key.\<close>

definition py_subscript :: "pyval \<Rightarrow> string \<Rightarrow> exn + pyval" where
  "py_subscript v k =
     (case v of
        PDict kvs \<Rightarrow>
          (case map_of kvs k of Some x \<Rightarrow> Inr x | None \<Rightarrow> Inl (Exn ''KeyError'' (repr_str k)))
      | PList xs \<Rightarrow> Inl (Exn ''TypeError'' ''list indices must be integers or slices, not str'')
      | PStr s \<Rightarrow> Inl (Exn ''TypeError'' (''string indices must be integers, not '' @ sq ''str''))
      | _ \<Rightarrow> Inl (Exn ''TypeError'' (sq (type_name v) @ '' object is not subscriptable'')))"

text \<open>The elements a \<^verbatim>\<open>for\<close> loop visits.\<close>

definition py_iter :: "pyval \<Rightarrow> exn + pyval list" where
  "py_iter v =
     (case v of
        PList xs \<Rightarrow> Inr xs
      | PDict kvs \<Rightarrow> Inr (map (\<lambda>kv. PStr (fst kv)) kvs)
      | PStr s \<Rightarrow> Inr (map (\<lambda>c. PStr [c]) s)
      | _ \<Rightarrow> Inl (Exn ''TypeError'' (sq (type_name v) @ '' object is not iterable'')))"

text \<open>\<^verbatim>\<open>v == i\<close> for an \<open>int\<close> \<open>i\<close>: a \<open>bool\<close> compares as 0 or 1.\<close>

definition py_eq_int :: "pyval \<Rightarrow> int \<Rightarrow> bool" where
  "py_eq_int v i =
     (case v of PInt j \<Rightarrow> j = i | PBool b \<Rightarrow> (if b then 1 else 0) = i | _ \<Rightarrow> False)"

text \<open>\<^verbatim>\<open>v == s\<close> for a \<open>str\<close> \<open>s\<close>.\<close>

definition py_eq_str :: "pyval \<Rightarrow> string \<Rightarrow> bool" where
  "py_eq_str v s = (v = PStr s)"

definition cmp_error :: "string \<Rightarrow> pyval \<Rightarrow> exn" where
  "cmp_error opr v =
     Exn ''TypeError'' (sq opr @ '' not supported between instances of '' @ sq (type_name v)
                        @ '' and '' @ sq ''int'')"

text \<open>\<^verbatim>\<open>v <= 0\<close> and \<^verbatim>\<open>v > 0\<close>.\<close>

definition py_le0 :: "pyval \<Rightarrow> exn + bool" where
  "py_le0 v =
     (case v of PInt i \<Rightarrow> Inr (i \<le> 0) | PBool b \<Rightarrow> Inr (\<not> b) | _ \<Rightarrow> Inl (cmp_error ''<='' v))"

definition py_gt0 :: "pyval \<Rightarrow> exn + bool" where
  "py_gt0 v =
     (case v of PInt i \<Rightarrow> Inr (0 < i) | PBool b \<Rightarrow> Inr b | _ \<Rightarrow> Inl (cmp_error ''>'' v))"

text \<open>\<^verbatim>\<open>round(x, 3)\<close> on the idealised (exact) value: to the nearest thousandth, ties to
  even.\<close>

definition round3 :: "rat \<Rightarrow> rat" where
  "round3 x =
     (let y = x * 1000; f = \<lfloor>y\<rfloor>; d = y - of_int f
      in of_int (if d < 1 / 2 then f else if 1 / 2 < d then f + 1
                 else if even f then f else f + 1) / 1000)"

text \<open>Chaining of computations that may raise.\<close>

definition sbind :: "exn + 'a \<Rightarrow> ('a \<Rightarrow> exn + 'b) \<Rightarrow> exn + 'b" where
  "sbind r f = (case r of Inl e \<Rightarrow> Inl e | Inr a \<Rightarrow> f a)"

text \<open>\<^verbatim>\<open>k in v\<close> for a \<open>str\<close> \<open>k\<close>: a key of a dict, an element of a list, a substring of
  a \<open>str\<close>.\<close>

definition py_contains :: "pyval \<Rightarrow> string \<Rightarrow> exn + bool" where
  "py_contains v k =
     (case v of
        PDict kvs \<Rightarrow> Inr (map_of kvs k \<noteq> None)
      | PList xs \<Rightarrow> Inr (PStr k \<in> set xs)
      | PStr s \<Rightarrow> Inr (\<exists>i \<in> {0..length s}. take (length k) (drop i s) = k)
      | _ \<Rightarrow> Inl (Exn ''TypeError'' (''argument of type '' @ sq (type_name v) @ '' is not iterable'')))"

section \<open>The external services\<close>

text \<open>
  The server holds no state of its own: it calls the chain node (\<^verbatim>\<open>eth\<close>, \<^verbatim>\<open>w3\<close>),
  the accounts registry and the WCHI token contract, and the GSP. Their joint state is a
  world \<open>'w\<close>; a call takes the world, answers or raises, and leaves a new world. The
  clock (\<^verbatim>\<open>time.time\<close>, in seconds, as an exact rational) is read off the world, and
  \<^verbatim>\<open>time.sleep\<close> moves the world on. \<open>accounts_move\<close> answers the transaction hash as the text the server
  records for it; \<open>eth_get_block_latest\<close> answers \<^verbatim>\<open>["hash"].hex()\<close> of the head block.
  Transactions carry their sender (\<^verbatim>\<open>{"from": ...}\<close>) as last argument.
\<close>

record 'w caps =
  time_now :: "'w \<Rightarrow> rat"
  time_sleep :: "rat \<Rightarrow> 'w \<Rightarrow> 'w"
  evm_mine :: "'w \<Rightarrow> (exn + unit) \<times> 'w"
  anvil_setBalance :: "string \<Rightarrow> int \<Rightarrow> 'w \<Rightarrow> (exn + unit) \<times> 'w"
  eth_get_balance :: "string \<Rightarrow> 'w \<Rightarrow> (exn + int) \<times> 'w"
  eth_get_block_latest :: "'w \<Rightarrow> (exn + string) \<times> 'w"
  accounts_address :: string
  accounts_exists :: "string \<Rightarrow> string \<Rightarrow> 'w \<Rightarrow> (exn + bool) \<times> 'w"
  accounts_tokenIdForName :: "string \<Rightarrow> string \<Rightarrow> 'w \<Rightarrow> (exn + int) \<times> 'w"
  accounts_ownerOf :: "int \<Rightarrow> 'w \<Rightarrow> (exn + string) \<times> 'w"
  wchi_approve :: "string \<Rightarrow> int \<Rightarrow> string \<Rightarrow> 'w \<Rightarrow> (exn + unit) \<times> 'w"
  accounts_register :: "string \<Rightarrow> string \<Rightarrow> string \<Rightarrow> 'w \<Rightarrow> (exn + unit) \<times> 'w"
  accounts_transferFrom :: "string \<Rightarrow> string \<Rightarrow> int \<Rightarrow> string \<Rightarrow> 'w \<Rightarrow> (exn + unit) \<times> 'w"
  accounts_move ::
    "string \<Rightarrow> string \<Rightarrow> string \<Rightarrow> int \<Rightarrow> int \<Rightarrow> string \<Rightarrow> string \<Rightarrow> 'w \<Rightarrow> (exn + string) \<times> 'w"
  gsp_getcharacters :: "'w \<Rightarrow> (exn + pyval) \<times> 'w"
  gsp_getnullstate :: "'w \<Rightarrow> (exn + pyval) \<times> 'w"

text \<open>Every call to a service is recorded, in order, with its arguments; a poll of the
  GSP's sync state and a reading of the clock are recorded with what they answered.\<close>

datatype event =
    EvmMine
  | AnvilSetBalance string int
  | GetBalance string
  | GetBlockLatest
  | AccountsExists string string
  | AccountsTokenIdForName string string
  | AccountsOwnerOf int
  | WchiApprove string int string
  | AccountsRegister string string string
  | AccountsTransferFrom string string int string
  | AccountsMove string string string int int string string
  | GspGetCharacters
  | GspGetNullState "exn + pyval"
  | TimeTime rat
  | TimeSleep rat

text \<open>The calls that change the chain.\<close>

fun mutating :: "event \<Rightarrow> bool" where
  "mutating EvmMine = True"
| "mutating (AnvilSetBalance a v) = True"
| "mutating (WchiApprove sp v f) = True"
| "mutating (AccountsRegister ns nm f) = True"
| "mutating (AccountsTransferFrom ow rc t f) = True"
| "mutating (AccountsMove ns nm mv n a r f) = True"
| "mutating ev = False"

text \<open>A value stored in a result dict: a JSON value, or a duration in seconds (the
  \<open>float\<close> \<^verbatim>\<open>waitTime\<close>).\<close>

datatype rval = Val pyval | Seconds rat

text \<open>The state a workflow runs in: the world, the calls made so far, and the result
  dict under construction (the local \<^verbatim>\<open>result\<close>).\<close>

record 'w st =
  world :: 'w
  calls :: "event list"
  result :: "string \<rightharpoonup> rval"

type_synonym ('w, 'a) prog = "'w st \<Rightarrow> (exn + 'a) \<times> 'w st"

definition ret :: "'a \<Rightarrow> ('w, 'a) prog" where
  "ret a s = (Inr a, s)"

definition raise_exn :: "exn \<Rightarrow> ('w, 'a) prog" where
  "raise_exn e s = (Inl e, s)"

definition lift :: "exn + 'a \<Rightarrow> ('w, 'a) prog" where
  "lift r s = (r, s)"

definition bnd :: "('w, 'a) prog \<Rightarrow> ('a \<Rightarrow> ('w, 'b) prog) \<Rightarrow> ('w, 'b) prog" where
  "bnd m f s = (case m s of (Inl e, s') \<Rightarrow> (Inl e, s') | (Inr a, s') \<Rightarrow> f a s')"

definition call_reply :: "((exn + 'a) \<Rightarrow> event) \<Rightarrow> ('w \<Rightarrow> (exn + 'a) \<times> 'w) \<Rightarrow> ('w, 'a) prog" where
  "call_reply ev f s =
     (case f (world s) of (r, w') \<Rightarrow> (r, s\<lparr>world := w', calls := calls s @ [ev r]\<rparr>))"

definition call :: "event \<Rightarrow> ('w \<Rightarrow> (exn + 'a) \<times> 'w) \<Rightarrow> ('w, 'a) prog" where
  "call ev f = call_reply (\<lambda>r. ev) f"

definition set_res :: "string \<Rightarrow> rval \<Rightarrow> ('w, unit) prog" where
  "set_res k v s = (Inr (), s\<lparr>result := (result s)(k \<mapsto> v)\<rparr>)"

definition time_time :: "'w caps \<Rightarrow> ('w, rat) prog" where
  "time_time caps s =
     (Inr (time_now caps (world s)), s\<lparr>calls := calls s @ [TimeTime (time_now caps (world s))]\<rparr>)"

definition sleep_for :: "'w caps \<Rightarrow> rat \<Rightarrow> ('w, unit) prog" where
  "sleep_for caps d s =
     (Inr (), s\<lparr>world := time_sleep caps d (world s), calls := calls s @ [TimeSleep d]\<rparr>)"

text \<open>The \<^verbatim>\<open>except Exception as e\<close> clause that ends every workflow.\<close>

definition except_Exception :: "(exn + 'a) \<times> 'w st \<Rightarrow> 'w st" where
  "except_Exception r =
     (case r of
        (Inr a, s) \<Rightarrow> s
      | (Inl e, s) \<Rightarrow>
          s\<lparr>result := (result s)(''error'' \<mapsto> Val (PStr (emsg e)),
                                  ''errorType'' \<mapsto> Val (PStr (etype e)))\<rparr>)"

section \<open>Chain helpers\<close>

definition mineblock :: "'w caps \<Rightarrow> ('w, unit) prog" where
  "mineblock caps = call EvmMine (evm_mine caps)"

definition setbalance :: "'w caps \<Rightarrow> string \<Rightarrow> int \<Rightarrow> ('w, unit) prog" where
  "setbalance caps addr wei = call (AnvilSetBalance addr wei) (anvil_setBalance caps addr wei)"

text \<open>\<^verbatim>\<open>w3.to_wei ("1", "ether")\<close>.\<close>

definition minWei :: int where
  "minWei = 10 ^ 18"

definition ensuregas :: "'w caps \<Rightarrow> string \<Rightarrow> ('w, unit) prog" where
  "ensuregas caps addr =
     bnd (call (GetBalance addr) (eth_get_balance caps addr)) (\<lambda>bal.
       if bal < minWei then setbalance caps addr minWei else ret ())"

definition uint256_max :: int where
  "uint256_max = 2 ^ 256 - 1"

definition tryRegisterName :: "'w caps \<Rightarrow> string \<Rightarrow> string \<Rightarrow> string \<Rightarrow> ('w, bool) prog" where
  "tryRegisterName caps ns name receiver =
     bnd (call (AccountsExists ns name) (accounts_exists caps ns name)) (\<lambda>ex.
       if ex then ret False
       else
         bnd (ensuregas caps receiver) (\<lambda>_.
         bnd (call (WchiApprove (accounts_address caps) uint256_max receiver)
                (wchi_approve caps (accounts_address caps) uint256_max receiver)) (\<lambda>_.
         bnd (mineblock caps) (\<lambda>_.
         bnd (call (AccountsRegister ns name receiver)
                (accounts_register caps ns name receiver)) (\<lambda>_.
         bnd (mineblock caps) (\<lambda>_.
         ret True))))))"

definition getNameOwner :: "'w caps \<Rightarrow> string \<Rightarrow> string \<Rightarrow> ('w, string \<times> int) prog" where
  "getNameOwner caps ns name =
     bnd (call (AccountsTokenIdForName ns name) (accounts_tokenIdForName caps ns name)) (\<lambda>tokenId.
     bnd (call (AccountsOwnerOf tokenId) (accounts_ownerOf caps tokenId)) (\<lambda>owner.
     ret (owner, tokenId)))"

section \<open>getname\<close>

definition getname_body :: "'w caps \<Rightarrow> string \<Rightarrow> string \<Rightarrow> string \<Rightarrow> ('w, unit) prog" where
  "getname_body caps ns name receiver =
     bnd (tryRegisterName caps ns name receiver) (\<lambda>registered.
       if registered then
         bnd (set_res ''success'' (Val (PBool True))) (\<lambda>_.
         bnd (set_res ''action'' (Val (PStr ''registered''))) (\<lambda>_.
         set_res ''owner'' (Val (PStr receiver))))
       else
         bnd (getNameOwner caps ns name) (\<lambda>(owner, tokenId).
         bnd (set_res ''previousOwner'' (Val (PStr owner))) (\<lambda>_.
         bnd (set_res ''tokenId'' (Val (PInt tokenId))) (\<lambda>_.
         bnd (ensuregas caps owner) (\<lambda>_.
         bnd (call (AccountsTransferFrom owner receiver tokenId owner)
                (accounts_transferFrom caps owner receiver tokenId owner)) (\<lambda>_.
         bnd (mineblock caps) (\<lambda>_.
         bnd (set_res ''success'' (Val (PBool True))) (\<lambda>_.
         bnd (set_res ''action'' (Val (PStr ''transferred''))) (\<lambda>_.
         set_res ''owner'' (Val (PStr receiver)))))))))))"

definition getname :: "'w caps \<Rightarrow> string \<Rightarrow> string \<Rightarrow> string \<Rightarrow> 'w st \<Rightarrow> 'w st" where
  "getname caps ns name receiver s =
     except_Exception
       (getname_body caps ns name receiver
          (s\<lparr>result := [''success'' \<mapsto> Val (PBool False), ''ns'' \<mapsto> Val (PStr ns),
                        ''name'' \<mapsto> Val (PStr name), ''receiver'' \<mapsto> Val (PStr receiver)]\<rparr>))"

section \<open>sendmove\<close>

text \<open>The move as text: a \<open>str\<close> as it is, any other value serialised.\<close>

definition move_text :: "pyval \<Rightarrow> string" where
  "move_text mv = (case mv of PStr s \<Rightarrow> s | _ \<Rightarrow> compact_json mv)"

definition zero_address :: string where
  "zero_address = ''0x'' @ concat (replicate 20 ''00'')"

definition sendmove_body :: "'w caps \<Rightarrow> string \<Rightarrow> string \<Rightarrow> pyval \<Rightarrow> ('w, unit) prog" where
  "sendmove_body caps ns name mv0 =
     (let mv = move_text mv0 in
      bnd (set_res ''moveData'' (Val (PStr (take 500 mv)))) (\<lambda>_.
      bnd (call (AccountsExists ns name) (accounts_exists caps ns name)) (\<lambda>ex.
        if \<not> ex then
          set_res ''error'' (Val (PStr (''name '' @ ns @ ''/'' @ name @ '' does not exist yet'')))
        else
          bnd (getNameOwner caps ns name) (\<lambda>(owner, tokenId).
          bnd (set_res ''owner'' (Val (PStr owner))) (\<lambda>_.
          bnd (set_res ''tokenId'' (Val (PInt tokenId))) (\<lambda>_.
          bnd (ensuregas caps owner) (\<lambda>_.
          bnd (call (AccountsMove ns name mv uint256_max 0 zero_address owner)
                 (accounts_move caps ns name mv uint256_max 0 zero_address owner)) (\<lambda>tx.
          bnd (set_res ''txHash'' (Val (PStr tx))) (\<lambda>_.
          bnd (mineblock caps) (\<lambda>_.
          bnd (set_res ''success'' (Val (PBool True))) (\<lambda>_.
          set_res ''message'' (Val (PStr ''Move submitted successfully'')))))))))))))"

definition sendmove :: "'w caps \<Rightarrow> string \<Rightarrow> string \<Rightarrow> pyval \<Rightarrow> 'w st \<Rightarrow> 'w st" where
  "sendmove caps ns name mv s =
     except_Exception
       (sendmove_body caps ns name mv
          (s\<lparr>result := [''success'' \<mapsto> Val (PBool False), ''ns'' \<mapsto> Val (PStr ns),
                        ''name'' \<mapsto> Val (PStr name)]\<rparr>))"

section \<open>validatecharacterstate\<close>

text \<open>The linear search of the character list: the first element whose \<^verbatim>\<open>id\<close> equals
  the wanted one.\<close>

fun find_character :: "pyval list \<Rightarrow> int \<Rightarrow> exn + pyval option" where
  "find_character [] characterId = Inr None"
| "find_character (c # cs) characterId =
     sbind (py_get c ''id'' PNone) (\<lambda>i.
       if py_eq_int i characterId then Inr (Some c) else find_character cs characterId)"

text \<open>The subset of the character's fields copied into the result.\<close>

definition character_summary :: "pyval \<Rightarrow> exn + pyval" where
  "character_summary character =
     sbind (py_get character ''id'' PNone) (\<lambda>i.
     sbind (py_get character ''owner'' PNone) (\<lambda>ow.
     sbind (py_get character ''pos'' PNone) (\<lambda>pos.
     sbind (py_get character ''speed'' (PInt 0)) (\<lambda>sp.
     sbind (py_get character ''inbuilding'' PNone) (\<lambda>inb.
     sbind (py_get character ''faction'' PNone) (\<lambda>fa.
     Inr (PDict [(''id'', i), (''owner'', ow), (''pos'', pos), (''speed'', sp),
                 (''inbuilding'', inb), (''faction'', fa)])))))))"

text \<open>\<^verbatim>\<open>"ongoing" in character and character["ongoing"]\<close>, as a condition.\<close>

definition ongoing_busy :: "pyval \<Rightarrow> exn + bool" where
  "ongoing_busy character =
     sbind (py_contains character ''ongoing'') (\<lambda>has.
       if has then sbind (py_subscript character ''ongoing'') (\<lambda>v. Inr (py_truthy v))
       else Inr False)"

text \<open>\<^verbatim>\<open>character.get ("movement") and character["movement"].get ("partialstep", 0) > 0\<close>,
  as a condition.\<close>

definition already_moving :: "pyval \<Rightarrow> exn + bool" where
  "already_moving character =
     sbind (py_get character ''movement'' PNone) (\<lambda>m.
       if py_truthy m then
         sbind (py_subscript character ''movement'') (\<lambda>m'.
         sbind (py_get m' ''partialstep'' (PInt 0)) (\<lambda>p. py_gt0 p))
       else Inr False)"

text \<open>The checks of the \<^verbatim>\<open>move\<close> action. The answer is \<open>False\<close> when a check has
  failed (the source returns the result there) and \<open>True\<close> when the function goes on.\<close>

definition move_checks :: "pyval \<Rightarrow> ('w, bool) prog" where
  "move_checks character =
     bnd (lift (py_get character ''inbuilding'' PNone)) (\<lambda>inb.
       if inb \<noteq> PNone then
         bnd (set_res ''error''
                (Val (PStr (''Character is inside a building (id='' @ py_str inb
                            @ ''). Must exit first.'')))) (\<lambda>_.
         ret False)
       else
         bnd (lift (py_get character ''speed'' (PInt 0))) (\<lambda>speed.
         bnd (lift (py_le0 speed)) (\<lambda>le.
           if le then
             bnd (lift (py_fmt_d speed)) (\<lambda>txt.
             bnd (set_res ''error''
                    (Val (PStr (''Character has no movement speed (speed='' @ txt @ '')'')))) (\<lambda>_.
             ret False))
           else
             bnd (lift (ongoing_busy character)) (\<lambda>busy.
               if busy then
                 bnd (set_res ''error''
                        (Val (PStr ''Character is busy with ongoing operation''))) (\<lambda>_.
                 ret False)
               else
                 bnd (lift (already_moving character)) (\<lambda>moving.
                   if moving then
                     bnd (set_res ''warning''
                            (Val (PStr ''Character is already moving, new waypoints will replace current path''))) (\<lambda>_.
                     ret True)
                   else ret True)))))"

definition validatecharacterstate_body :: "'w caps \<Rightarrow> int \<Rightarrow> string \<Rightarrow> ('w, unit) prog" where
  "validatecharacterstate_body caps characterId action =
     bnd (call GspGetCharacters (gsp_getcharacters caps)) (\<lambda>chars.
     bnd (lift (py_get chars ''data'' (PList []))) (\<lambda>charData.
     bnd (lift (py_iter charData)) (\<lambda>cs.
     bnd (lift (find_character cs characterId)) (\<lambda>found.
       case found of
         None \<Rightarrow>
           set_res ''error'' (Val (PStr (''Character '' @ str_int characterId @ '' not found'')))
       | Some character \<Rightarrow>
           bnd (lift (character_summary character)) (\<lambda>summary.
           bnd (set_res ''character'' (Val summary)) (\<lambda>_.
           bnd (if action = ''move'' then move_checks character else ret True) (\<lambda>go_on.
             if \<not> go_on then ret ()
             else
               bnd (set_res ''valid'' (Val (PBool True))) (\<lambda>_.
               set_res ''message''
                 (Val (PStr (''Character can perform '' @ action @ '' action'')))))))))))"

definition validatecharacterstate :: "'w caps \<Rightarrow> int \<Rightarrow> string \<Rightarrow> 'w st \<Rightarrow> 'w st" where
  "validatecharacterstate caps characterId action s =
     except_Exception
       (validatecharacterstate_body caps characterId action
          (s\<lparr>result := [''valid'' \<mapsto> Val (PBool False), ''characterId'' \<mapsto> Val (PInt characterId),
                        ''action'' \<mapsto> Val (PStr action)]\<rparr>))"

section \<open>syncgsp\<close>

definition strip0x :: "string \<Rightarrow> string" where
  "strip0x blk = (if take 2 blk = ''0x'' then drop 2 blk else blk)"

definition maxWait :: int where
  "maxWait = 30"

text \<open>\<^verbatim>\<open>state["state"] == "up-to-date" and state["blockhash"] == blk\<close>.\<close>

definition sync_matches :: "pyval \<Rightarrow> string \<Rightarrow> exn + bool" where
  "sync_matches state blk =
     sbind (py_subscript state ''state'') (\<lambda>tag.
       if py_eq_str tag ''up-to-date'' then
         sbind (py_subscript state ''blockhash'') (\<lambda>h. Inr (py_eq_str h blk))
       else Inr False)"

text \<open>How one round of the polling loop ends: \<^verbatim>\<open>break\<close>, \<^verbatim>\<open>return result\<close>, or the
  next round.\<close>

datatype verdict = Break | Return | Again

definition poll :: "'w caps \<Rightarrow> rat \<Rightarrow> string \<Rightarrow> ('w, verdict) prog" where
  "poll caps startTime blk =
     bnd (call_reply GspGetNullState (gsp_getnullstate caps)) (\<lambda>state.
     bnd (lift (sync_matches state blk)) (\<lambda>m.
       if m then ret Break
       else
         bnd (time_time caps) (\<lambda>t.
           if of_int maxWait < t - startTime then
             bnd (set_res ''error''
                    (Val (PStr (''Timeout waiting for GSP sync after '' @ str_int maxWait
                                @ '' seconds'')))) (\<lambda>_.
             bnd (lift (py_subscript state ''state'')) (\<lambda>tag.
             bnd (set_res ''lastState'' (Val tag)) (\<lambda>_.
             bnd (lift (py_get state ''blockhash'' (PStr ''unknown''))) (\<lambda>h.
             bnd (set_res ''lastBlock'' (Val h)) (\<lambda>_.
             ret Return)))))
           else
             bnd (sleep_for caps (1 / 10)) (\<lambda>_.
             ret Again))))"

text \<open>The \<^verbatim>\<open>while True\<close> loop; \<open>None\<close> is a loop that never ends. The answer is
  \<open>True\<close> after \<^verbatim>\<open>break\<close> and \<open>False\<close> after \<^verbatim>\<open>return result\<close>.\<close>

partial_function (option) sync_loop ::
  "'w caps \<Rightarrow> rat \<Rightarrow> string \<Rightarrow> 'w st \<Rightarrow> ((exn + bool) \<times> 'w st) option" where
  "sync_loop caps startTime blk s =
     (case poll caps startTime blk s of
        (Inl e, s') \<Rightarrow> Some (Inl e, s')
      | (Inr Break, s') \<Rightarrow> Some (Inr True, s')
      | (Inr Return, s') \<Rightarrow> Some (Inr False, s')
      | (Inr Again, s') \<Rightarrow> sync_loop caps startTime blk s')"

text \<open>From the start to the loop: the start time, the head block's hash without its
  \<^verbatim>\<open>0x\<close>, and the assertion on its length.\<close>

definition sync_start :: "'w caps \<Rightarrow> ('w, rat \<times> string) prog" where
  "sync_start caps =
     bnd (time_time caps) (\<lambda>startTime.
     bnd (call GetBlockLatest (eth_get_block_latest caps)) (\<lambda>h.
       let blk = strip0x h in
       if length blk \<noteq> 64 then raise_exn (Exn ''AssertionError'' [])
       else
         bnd (set_res ''targetBlock'' (Val (PStr blk))) (\<lambda>_.
         ret (startTime, blk))))"

text \<open>After the loop.\<close>

definition sync_finish :: "'w caps \<Rightarrow> rat \<Rightarrow> string \<Rightarrow> ('w, unit) prog" where
  "sync_finish caps startTime blk =
     bnd (set_res ''success'' (Val (PBool True))) (\<lambda>_.
     bnd (set_res ''blockhash'' (Val (PStr blk))) (\<lambda>_.
     bnd (time_time caps) (\<lambda>t.
     set_res ''waitTime'' (Seconds (round3 (t - startTime))))))"

definition syncgsp_body :: "'w caps \<Rightarrow> 'w st \<Rightarrow> ((exn + unit) \<times> 'w st) option" where
  "syncgsp_body caps s =
     (case sync_start caps s of
        (Inl e, s1) \<Rightarrow> Some (Inl e, s1)
      | (Inr (startTime, blk), s1) \<Rightarrow>
          (case sync_loop caps startTime blk s1 of
             None \<Rightarrow> None
           | Some (Inl e, s2) \<Rightarrow> Some (Inl e, s2)
           | Some (Inr False, s2) \<Rightarrow> Some (Inr (), s2)
           | Some (Inr True, s2) \<Rightarrow> Some (sync_finish caps startTime blk s2)))"

definition syncgsp :: "'w caps \<Rightarrow> 'w st \<Rightarrow> 'w st option" where
  "syncgsp caps s =
     map_option except_Exception
       (syncgsp_body caps (s\<lparr>result := [''success'' \<mapsto> Val (PBool False)]\<rparr>))"

section \<open>A reference environment\<close>

text \<open>An in-memory chain, registry and GSP, for running the workflows on concrete
  inputs: balances and names are association lists (the first entry of a key counts), the
  GSP answers its character list and, poll after poll, the sync states of a list (the
  last one stays).\<close>

record fake_world =
  fw_clock :: rat
  fw_balances :: "(string \<times> int) list"
  fw_names :: "((string \<times> string) \<times> (int \<times> string)) list"
  fw_head :: string
  fw_characters :: pyval
  fw_sync :: "pyval list"

definition fake_setBalance :: "string \<Rightarrow> int \<Rightarrow> fake_world \<Rightarrow> (exn + unit) \<times> fake_world" where
  "fake_setBalance addr wei w = (Inr (), w\<lparr>fw_balances := (addr, wei) # fw_balances w\<rparr>)"

definition fake_get_balance :: "string \<Rightarrow> fake_world \<Rightarrow> (exn + int) \<times> fake_world" where
  "fake_get_balance addr w = (Inr (case map_of (fw_balances w) addr of Some v \<Rightarrow> v | None \<Rightarrow> 0), w)"

definition fake_exists :: "string \<Rightarrow> string \<Rightarrow> fake_world \<Rightarrow> (exn + bool) \<times> fake_world" where
  "fake_exists ns name w = (Inr (map_of (fw_names w) (ns, name) \<noteq> None), w)"

definition fake_tokenIdForName :: "string \<Rightarrow> string \<Rightarrow> fake_world \<Rightarrow> (exn + int) \<times> fake_world" where
  "fake_tokenIdForName ns name w =
     (case map_of (fw_names w) (ns, name) of
        Some (t, ow) \<Rightarrow> (Inr t, w)
      | None \<Rightarrow> (Inl (Exn ''ContractLogicError'' ''no such name''), w))"

definition fake_ownerOf :: "int \<Rightarrow> fake_world \<Rightarrow> (exn + string) \<times> fake_world" where
  "fake_ownerOf t w =
     (case filter (\<lambda>e. fst (snd e) = t) (fw_names w) of
        e # es \<Rightarrow> (Inr (snd (snd e)), w)
      | [] \<Rightarrow> (Inl (Exn ''ContractLogicError'' ''no such token''), w))"

definition fake_register :: "string \<Rightarrow> string \<Rightarrow> string \<Rightarrow> fake_world \<Rightarrow> (exn + unit) \<times> fake_world" where
  "fake_register ns name sender w =
     (if map_of (fw_names w) (ns, name) \<noteq> None
      then (Inl (Exn ''ContractLogicError'' ''name exists''), w)
      else (Inr (), w\<lparr>fw_names := ((ns, name), (1 + int (length (fw_names w)), sender)) # fw_names w\<rparr>))"

definition fake_transferFrom ::
  "string \<Rightarrow> string \<Rightarrow> int \<Rightarrow> string \<Rightarrow> fake_world \<Rightarrow> (exn + unit) \<times> fake_world" where
  "fake_transferFrom owner receiver t sender w =
     (Inr (), w\<lparr>fw_names := map (\<lambda>e. if fst (snd e) = t then (fst e, (t, receiver)) else e) (fw_names w)\<rparr>)"

definition fake_getnullstate :: "fake_world \<Rightarrow> (exn + pyval) \<times> fake_world" where
  "fake_getnullstate w =
     (case fw_sync w of
        [] \<Rightarrow> (Inl (Exn ''ConnectionError'' ''GSP unreachable''), w)
      | [r] \<Rightarrow> (Inr r, w)
      | r # r' # rs \<Rightarrow> (Inr r, w\<lparr>fw_sync := r' # rs\<rparr>))"

definition fake :: "fake_world caps" where
  "fake =
     \<lparr>time_now = fw_clock,
      time_sleep = (\<lambda>d w. w\<lparr>fw_clock := fw_clock w + d\<rparr>),
      evm_mine = (\<lambda>w. (Inr (), w)),
      anvil_setBalance = fake_setBalance,
      eth_get_balance = fake_get_balance,
      eth_get_block_latest = (\<lambda>w. (Inr (fw_head w), w)),
      accounts_address = ''0xACC0'',
      accounts_exists = fake_exists,
      accounts_tokenIdForName = fake_tokenIdForName,
      accounts_ownerOf = fake_ownerOf,
      wchi_approve = (\<lambda>spender amount sender w. (Inr (), w)),
      accounts_register = fake_register,
      accounts_transferFrom = fake_transferFrom,
      accounts_move = (\<lambda>ns name mv nonce amount receiver sender w. (Inr ''0xfeed'', w)),
      gsp_getcharacters = (\<lambda>w. (Inr (fw_characters w), w)),
      gsp_getnullstate = fake_getnullstate\<rparr>"

definition fake_world0 :: fake_world where
  "fake_world0 =
     \<lparr>fw_clock = 0, fw_balances = [(''0xB0B'', 5)],
      fw_names = [((''p'', ''alice''), (1, ''0xA11CE''))],
      fw_head = ''0x'' @ replicate 64 CHR ''a'',
      fw_characters = PDict [], fw_sync = []\<rparr>"

text \<open>The state a call of the server starts in.\<close>

definition start :: "'w \<Rightarrow> 'w st" where
  "start w = \<lparr>world = w, calls = [], result = Map.empty\<rparr>"

section \<open>What the claims assume of the services\<close>

text \<open>Reading a balance leaves the world as it is, and a balance that was set is the
  balance read afterwards.\<close>

definition pure_balance_reads :: "'w caps \<Rightarrow> bool" where
  "pure_balance_reads caps = (\<forall>addr w. snd (eth_get_balance caps addr w) = w)"

definition honours_setBalance :: "'w caps \<Rightarrow> bool" where
  "honours_setBalance caps =
     (\<forall>addr wei w w'. anvil_setBalance caps addr wei w = (Inr (), w')
        \<longrightarrow> fst (eth_get_balance caps addr w') = Inr wei)"

text \<open>The calls made between two states.\<close>

definition new_calls :: "'w st \<Rightarrow> 'w st \<Rightarrow> event list" where
  "new_calls s s' = drop (length (calls s)) (calls s')"

section \<open>Properties\<close>

lemmas prog_defs = bnd_def ret_def raise_exn_def lift_def call_def call_reply_def set_res_def
  time_time_def sleep_for_def

lemma ensuregas_enough:
  assumes "eth_get_balance caps addr (world s) = (Inr b, w1)" "minWei \<le> b"
  shows "ensuregas caps addr s = (Inr (), s\<lparr>world := w1, calls := calls s @ [GetBalance addr]\<rparr>)"
  using assms by (simp add: ensuregas_def prog_defs)

lemma ensuregas_low:
  assumes "eth_get_balance caps addr (world s) = (Inr b, w1)" "b < minWei"
  shows "ensuregas caps addr s =
     (fst (anvil_setBalance caps addr minWei w1),
      s\<lparr>world := snd (anvil_setBalance caps addr minWei w1),
        calls := calls s @ [GetBalance addr, AnvilSetBalance addr minWei]\<rparr>)"
  using assms by (simp add: ensuregas_def setbalance_def prog_defs split: prod.splits)

text \<open>
  Claim C9. \<open>ensuregas\<close> is idempotent. When the balance read is at least the minimum
  (one ether, in wei), the only call is the reading of the balance: no balance is set.
  When it is below, the one call after the reading sets the balance of the address to
  exactly the minimum. And when the chain reads balances without changing anything and
  reads back a balance that was set, a second \<open>ensuregas\<close> on the same address only
  reads the balance.
\<close>

theorem ensuregas_idempotent:
  assumes "eth_get_balance caps addr (world s) = (Inr b, w1)"
  shows "(minWei \<le> b \<longrightarrow>
            calls (snd (ensuregas caps addr s)) = calls s @ [GetBalance addr])
       \<and> (b < minWei \<longrightarrow>
            calls (snd (ensuregas caps addr s))
              = calls s @ [GetBalance addr, AnvilSetBalance addr minWei])
       \<and> (pure_balance_reads caps \<and> honours_setBalance caps
            \<and> fst (ensuregas caps addr s) = Inr () \<longrightarrow>
            calls (snd (ensuregas caps addr (snd (ensuregas caps addr s))))
              = calls (snd (ensuregas caps addr s)) @ [GetBalance addr])"
proof (intro conjI impI)
  assume "minWei \<le> b"
  then show "calls (snd (ensuregas caps addr s)) = calls s @ [GetBalance addr]"
    using assms by (simp add: ensuregas_enough)
next
  assume "b < minWei"
  then show "calls (snd (ensuregas caps addr s))
      = calls s @ [GetBalance addr, AnvilSetBalance addr minWei]"
    using assms by (simp add: ensuregas_low)
next
  assume h: "pure_balance_reads caps \<and> honours_setBalance caps
      \<and> fst (ensuregas caps addr s) = Inr ()"
  let ?s1 = "snd (ensuregas caps addr s)"
  have pure: "\<And>a w. snd (eth_get_balance caps a w) = w"
    using h by (simp add: pure_balance_reads_def)
  have w1: "w1 = world s"
    using pure [of addr "world s"] assms by simp
  have "\<exists>b' w'. eth_get_balance caps addr (world ?s1) = (Inr b', w') \<and> minWei \<le> b'"
  proof (cases "b < minWei")
    case True
    have e: "ensuregas caps addr s =
       (fst (anvil_setBalance caps addr minWei w1),
        s\<lparr>world := snd (anvil_setBalance caps addr minWei w1),
          calls := calls s @ [GetBalance addr, AnvilSetBalance addr minWei]\<rparr>)"
      using assms True by (rule ensuregas_low)
    have ok: "fst (anvil_setBalance caps addr minWei w1) = Inr ()"
      using h e by simp
    have "anvil_setBalance caps addr minWei w1
        = (Inr (), snd (anvil_setBalance caps addr minWei w1))"
      using ok by (metis prod.collapse)
    then have "fst (eth_get_balance caps addr (snd (anvil_setBalance caps addr minWei w1)))
        = Inr minWei"
      using h unfolding honours_setBalance_def by blast
    moreover have "world ?s1 = snd (anvil_setBalance caps addr minWei w1)"
      using e by simp
    ultimately have "eth_get_balance caps addr (world ?s1)
        = (Inr minWei, snd (eth_get_balance caps addr (world ?s1)))"
      by (simp add: prod_eq_iff)
    then show ?thesis by blast
  next
    case False
    then have e: "ensuregas caps addr s
        = (Inr (), s\<lparr>world := w1, calls := calls s @ [GetBalance addr]\<rparr>)"
      using assms by (simp add: ensuregas_enough)
    show ?thesis using e assms w1 False by simp
  qed
  then obtain b' w' where "eth_get_balance caps addr (world ?s1) = (Inr b', w')" "minWei \<le> b'"
    by blast
  then show "calls (snd (ensuregas caps addr ?s1)) = calls ?s1 @ [GetBalance addr]"
    by (simp add: ensuregas_enough)
qed


lemma fake_simps [simp]:
  "time_now fake = fw_clock"
  "time_sleep fake = (\<lambda>d w. w\<lparr>fw_clock := fw_clock w + d\<rparr>)"
  "evm_mine fake = (\<lambda>w. (Inr (), w))"
  "anvil_setBalance fake = fake_setBalance"
  "eth_get_balance fake = fake_get_balance"
  "eth_get_block_latest fake = (\<lambda>w. (Inr (fw_head w), w))"
  "accounts_address fake = ''0xACC0''"
  "accounts_exists fake = fake_exists"
  "accounts_tokenIdForName fake = fake_tokenIdForName"
  "accounts_ownerOf fake = fake_ownerOf"
  "wchi_approve fake = (\<lambda>spender amount sender w. (Inr (), w))"
  "accounts_register fake = fake_register"
  "accounts_transferFrom fake = fake_transferFrom"
  "accounts_move fake = (\<lambda>ns name mv nonce amount receiver sender w. (Inr ''0xfeed'', w))"
  "gsp_getcharacters fake = (\<lambda>w. (Inr (fw_characters w), w))"
  "gsp_getnullstate fake = fake_getnullstate"
  by (simp_all add: fake_def)

lemma fake_pure_balance_reads: "pure_balance_reads fake"
  by (simp add: pure_balance_reads_def fake_get_balance_def)

lemma fake_honours_setBalance: "honours_setBalance fake"
  by (auto simp add: honours_setBalance_def fake_get_balance_def fake_setBalance_def)

theorem ensuregas_idempotent_witness:
  "eth_get_balance fake ''0xB0B'' (world (start fake_world0)) = (Inr 5, fake_world0)
   \<and> (5::int) < minWei
   \<and> calls (snd (ensuregas fake ''0xB0B'' (start fake_world0)))
       = [GetBalance ''0xB0B'', AnvilSetBalance ''0xB0B'' minWei]
   \<and> pure_balance_reads fake \<and> honours_setBalance fake
   \<and> fst (ensuregas fake ''0xB0B'' (start fake_world0)) = Inr ()
   \<and> calls (snd (ensuregas fake ''0xB0B'' (snd (ensuregas fake ''0xB0B'' (start fake_world0)))))
       = [GetBalance ''0xB0B'', AnvilSetBalance ''0xB0B'' minWei, GetBalance ''0xB0B'']"
proof -
  have h: "eth_get_balance fake ''0xB0B'' (world (start fake_world0)) = (Inr 5, fake_world0)"
    by (simp add: start_def fake_get_balance_def fake_world0_def)
  have lt: "(5::int) < minWei"
    by (simp add: minWei_def)
  have ok: "fst (ensuregas fake ''0xB0B'' (start fake_world0)) = Inr ()"
    using h lt by (simp add: ensuregas_low fake_setBalance_def)
  have c0: "calls (start fake_world0) = []"
    by (simp add: start_def)
  show ?thesis
    using ensuregas_idempotent [OF h] h lt ok c0 fake_pure_balance_reads fake_honours_setBalance
    by simp
qed

lemmas sendmove_defs = sendmove_def sendmove_body_def except_Exception_def Let_def
  getNameOwner_def ensuregas_def setbalance_def mineblock_def new_calls_def

text \<open>
  Claim C1. When the registry answers that the name does not exist, \<open>sendmove\<close> returns
  a result with \<open>success\<close> false and the error \<^verbatim>\<open>name <ns>/<name> does not exist yet\<close>,
  and the existence check is the only call it has made: no gas is ensured, no
  transaction is sent and no block is mined.
\<close>

theorem sendmove_missing_name:
  assumes "accounts_exists caps ns name (world s) = (Inr False, w1)"
  shows "result (sendmove caps ns name mv s) ''success'' = Some (Val (PBool False))
       \<and> result (sendmove caps ns name mv s) ''error''
           = Some (Val (PStr (''name '' @ ns @ ''/'' @ name @ '' does not exist yet'')))
       \<and> new_calls s (sendmove caps ns name mv s) = [AccountsExists ns name]
       \<and> filter mutating (new_calls s (sendmove caps ns name mv s)) = []
       \<and> world (sendmove caps ns name mv s) = w1"
  using assms by (simp add: sendmove_defs prog_defs)

theorem sendmove_missing_name_witness:
  "accounts_exists fake ''p'' ''bob'' (world (start fake_world0)) = (Inr False, fake_world0)
   \<and> result (sendmove fake ''p'' ''bob'' (PDict [(''m'', PInt 1)]) (start fake_world0)) ''success''
       = Some (Val (PBool False))
   \<and> result (sendmove fake ''p'' ''bob'' (PDict [(''m'', PInt 1)]) (start fake_world0)) ''error''
       = Some (Val (PStr ''name p/bob does not exist yet''))
   \<and> new_calls (start fake_world0)
        (sendmove fake ''p'' ''bob'' (PDict [(''m'', PInt 1)]) (start fake_world0))
       = [AccountsExists ''p'' ''bob'']"
proof -
  have h: "accounts_exists fake ''p'' ''bob'' (world (start fake_world0)) = (Inr False, fake_world0)"
    by (simp add: start_def fake_exists_def fake_world0_def)
  show ?thesis
    using sendmove_missing_name [OF h, of "PDict [(''m'', PInt 1)]"] h by simp
qed

lemma sendmove_moveData_kept:
  "result (sendmove caps ns name mv s) ''moveData''
     = Some (Val (PStr (take 500 (move_text mv))))"
  by (simp add: sendmove_defs prog_defs split: prod.splits sum.splits)

lemma sendmove_move_payload:
  "AccountsMove ns' nm' m n a r f \<in> set (new_calls s (sendmove caps ns name mv s))
     \<longrightarrow> m = move_text mv"
  by (simp add: sendmove_defs prog_defs split: prod.split sum.split)

lemma sendmove_success_submits:
  "result (sendmove caps ns name mv s) ''success'' = Some (Val (PBool True))
     \<longrightarrow> (\<exists>ow. AccountsMove ns name (move_text mv) uint256_max 0 zero_address ow
              \<in> set (new_calls s (sendmove caps ns name mv s)))"
  by (simp add: sendmove_defs prog_defs split: prod.split sum.split)

text \<open>
  Claim C8. The \<open>moveData\<close> of the result of \<open>sendmove\<close> is the first 500 characters
  of the move as text (the move itself when it is a \<open>str\<close>, its compact JSON
  otherwise): a prefix of that text, of at most 500 characters. Every move transaction
  of the run carries the whole text, and a run that succeeds has sent one.
\<close>

theorem sendmove_moveData:
  "result (sendmove caps ns name mv s) ''moveData''
     = Some (Val (PStr (take 500 (move_text mv))))
   \<and> prefix (take 500 (move_text mv)) (move_text mv)
   \<and> length (take 500 (move_text mv)) \<le> 500
   \<and> (\<forall>ns' nm' m n a r f.
         AccountsMove ns' nm' m n a r f \<in> set (new_calls s (sendmove caps ns name mv s))
           \<longrightarrow> m = move_text mv)
   \<and> (result (sendmove caps ns name mv s) ''success'' = Some (Val (PBool True))
        \<longrightarrow> (\<exists>ow. AccountsMove ns name (move_text mv) uint256_max 0 zero_address ow
                   \<in> set (new_calls s (sendmove caps ns name mv s))))"
  using sendmove_moveData_kept [of caps ns name mv s]
    sendmove_move_payload [of _ _ _ _ _ _ _ s caps ns name mv]
    sendmove_success_submits [of caps ns name mv s]
  by (simp add: take_is_prefix)

end
